theory Spec2Isabelle
  imports Main "HOL-Library.Sublist"
begin

section \<open>Data model\<close>

text \<open>
  The server \<^verbatim>\<open>imessage_query_server.py\<close> keeps one piece of mutable state, the
  module-level dictionary \<^verbatim>\<open>contacts_map\<close>, and talks to four collaborators that are
  not part of the repository: the contacts file on disk, the \<^verbatim>\<open>phonenumbers\<close> library,
  Python's \<^verbatim>\<open>datetime\<close>, and the \<^verbatim>\<open>imessagedb\<close> message store. The state is
  passed explicitly; the collaborators are fields of one record, so every statement
  below holds for whatever they compute.
\<close>

subsection \<open>The contact directory\<close>

text \<open>
  \<^verbatim>\<open>contacts_map: Dict[str, Dict[str, List[str]]]\<close>. A Python dictionary built by
  \<^verbatim>\<open>json.load\<close> iterates in insertion order, and the partial-match loop depends on
  that order, so both levels are association lists (with pairwise distinct keys, as a
  dictionary has).
\<close>

type_synonym info = "(string \<times> string list) list"
type_synonym contacts = "(string \<times> info) list"

text \<open>\<^verbatim>\<open>info.get(key, default)\<close>\<close>

definition dict_get :: "info \<Rightarrow> string \<Rightarrow> string list \<Rightarrow> string list" where
  "dict_get d k dflt = (case map_of d k of None \<Rightarrow> dflt | Some v \<Rightarrow> v)"

text \<open>
  What \<^verbatim>\<open>load_contacts_map\<close> finds at \<^verbatim>\<open>CONTACTS_MAP_PATH\<close>: no file
  (\<^verbatim>\<open>exists()\<close> is false), a file on which \<^verbatim>\<open>open\<close> or \<^verbatim>\<open>json.load\<close> raises, or a
  file that parses to a dictionary of the declared type.
\<close>

datatype contacts_file = FileMissing | FileUnreadable | FileJson contacts

subsection \<open>Strings\<close>

text \<open>
  \<^verbatim>\<open>str.lower()\<close> on the ASCII letters; other characters are left as they are.
\<close>

definition lower_char :: "char \<Rightarrow> char" where
  "lower_char c =
     (case map_of (zip ''ABCDEFGHIJKLMNOPQRSTUVWXYZ'' ''abcdefghijklmnopqrstuvwxyz'') c of
        None \<Rightarrow> c
      | Some l \<Rightarrow> l)"

definition lower :: "string \<Rightarrow> string" where
  "lower s = map lower_char s"

text \<open>
  Python's \<^verbatim>\<open>a in b\<close> on strings is \<^term>\<open>sublist a b\<close>: \<^term>\<open>a\<close> occurs in
  \<^term>\<open>b\<close> as a contiguous block.
\<close>

section \<open>Contact lookup\<close>

text \<open>
  \<^verbatim>\<open>load_contacts_map\<close> (lines 68-79). The assignment to the global happens only when
  \<^verbatim>\<open>json.load\<close> returns; the \<^verbatim>\<open>except Exception\<close> clause logs and returns, so the
  function has no error result.
\<close>

definition load_contacts_map :: "contacts_file \<Rightarrow> contacts \<Rightarrow> contacts" where
  "load_contacts_map f contacts_map =
     (case f of
        FileJson m \<Rightarrow> m
      | FileMissing \<Rightarrow> contacts_map
      | FileUnreadable \<Rightarrow> contacts_map)"

text \<open>
  The loop of lines 154-156: the first entry whose lowered name contains the lowered
  contact name returns, whatever its phone list holds.
\<close>

fun partial_match :: "string \<Rightarrow> contacts \<Rightarrow> string list option" where
  "partial_match contact_name_lower [] = None"
| "partial_match contact_name_lower ((name, info) # rest) =
     (if sublist contact_name_lower (lower name)
      then Some (dict_get info ''phones'' [])
      else partial_match contact_name_lower rest)"

text \<open>Lines 145-146: the directory is read again whenever it is empty.\<close>

definition ensure_loaded :: "contacts_file \<Rightarrow> contacts \<Rightarrow> contacts" where
  "ensure_loaded f contacts_map =
     (if contacts_map = [] then load_contacts_map f contacts_map else contacts_map)"

text \<open>
  \<^verbatim>\<open>lookup_contact_numbers\<close> (lines 136-158). It returns the directory as it stands
  after the lazy reload, and the function's own result (\<^term>\<open>None\<close> for Python's
  \<^verbatim>\<open>None\<close>).
\<close>

definition lookup_contact_numbers ::
  "contacts_file \<Rightarrow> contacts \<Rightarrow> string \<Rightarrow> contacts \<times> string list option" where
  "lookup_contact_numbers f contacts_map contact_name =
     (let cm = ensure_loaded f contacts_map
      in (cm,
          case map_of cm contact_name of
            Some info \<Rightarrow> Some (dict_get info ''phones'' [])
          | None \<Rightarrow> partial_match (lower contact_name) cm))"

section \<open>The collaborators\<close>

text \<open>A Python exception that leaves \<^verbatim>\<open>get_chat_transcript\<close>, with its message.\<close>

datatype error = ValueError string | FileNotFoundError string | IndexError

text \<open>
  A naive \<^verbatim>\<open>datetime\<close>: the proleptic day number and the time of day in
  microseconds. \<^verbatim>\<open>datetime\<close> compares them in this order, and
  \<^verbatim>\<open>dt - timedelta(days=7)\<close> lowers the day number by 7.
\<close>

type_synonym datetime = "int \<times> nat"

definition dt_less :: "datetime \<Rightarrow> datetime \<Rightarrow> bool" where
  "dt_less a b = (fst a < fst b \<or> (fst a = fst b \<and> snd a < snd b))"

definition minus_days :: "datetime \<Rightarrow> int \<Rightarrow> datetime" where
  "minus_days dt n = (fst dt - n, snd dt)"

text \<open>
  A message of \<^verbatim>\<open>imessagedb\<close> and its attachments, as far as the server reads them.
  For an attachment, \<^term>\<open>None\<close> stands for an attribute that \<^verbatim>\<open>hasattr\<close> does not
  find (or, for the three strings, whose value is \<^verbatim>\<open>None\<close>: the output is the same).
  \<^verbatim>\<open>msg.attachments\<close> is \<^verbatim>\<open>None\<close> or a list.
\<close>

record raw_attachment =
  att_mime_type :: "string option"
  att_filename :: "string option"
  att_original_path :: "string option"
  att_missing :: "bool option"

record raw_message =
  msg_text :: "string option"
  msg_date :: string
  msg_is_from_me :: bool
  msg_attachments :: "raw_attachment list option"

text \<open>
  Everything the server calls and does not define.
  \<^item> \<^verbatim>\<open>phonenumbers.parse(s, "US")\<close> returns a number or raises
    \<^verbatim>\<open>NumberParseException\<close> (\<^term>\<open>Inl\<close>, with the exception's text);
    \<^verbatim>\<open>is_valid_number\<close> and \<^verbatim>\<open>format_number(_, E164)\<close> work on that number.
  \<^item> \<^verbatim>\<open>os.environ.get\<close>, \<^verbatim>\<open>Path.home()\<close> and \<^verbatim>\<open>Path.exists()\<close>; a path is the
    string that \<^verbatim>\<open>str\<close> gives for it.
  \<^item> \<^verbatim>\<open>db.Messages("person", n, numbers=[n]).message_list\<close>.
  \<^item> \<^verbatim>\<open>datetime.now()\<close>, \<^verbatim>\<open>strftime("%Y-%m-%d")\<close>,
    \<^verbatim>\<open>datetime.strptime(_, "%Y-%m-%d")\<close> (a day, at midnight) and
    \<^verbatim>\<open>datetime.fromisoformat\<close>; \<^term>\<open>None\<close> is the \<^verbatim>\<open>ValueError\<close> the two
    parsers raise.
\<close>

record 'pn extern =
  contacts_json :: contacts_file
  phone_parse :: "string \<Rightarrow> string + 'pn"
  is_valid_number :: "'pn \<Rightarrow> bool"
  format_e164 :: "'pn \<Rightarrow> string"
  environ_get :: "string \<Rightarrow> string option"
  home :: string
  path_exists :: "string \<Rightarrow> bool"
  message_list :: "string \<Rightarrow> raw_message list"
  now :: datetime
  strftime_ymd :: "datetime \<Rightarrow> string"
  strptime_ymd :: "string \<Rightarrow> int option"
  fromisoformat :: "string \<Rightarrow> datetime option"

section \<open>The query\<close>

subsection \<open>Output records\<close>

text \<open>
  The dictionaries the tool returns. The keys of a message's dictionary carry the prefix
  \<open>rec_\<close> here: \<^verbatim>\<open>"text"\<close>, \<^verbatim>\<open>"date"\<close>, \<^verbatim>\<open>"is_from_me"\<close>,
  \<^verbatim>\<open>"has_attachments"\<close>, \<^verbatim>\<open>"attachments"\<close>.
\<close>

record attachment_record =
  mime_type :: "string option"
  filename :: "string option"
  file_path :: "string option"
  is_missing :: bool

record transcript_record =
  rec_text :: string
  rec_date :: string
  rec_is_from_me :: bool
  rec_has_attachments :: bool
  rec_attachments :: "attachment_record list"

record transcript =
  messages :: "transcript_record list"
  total_count :: nat

text \<open>
  One run of \<^verbatim>\<open>get_chat_transcript\<close>: the directory as the run leaves it, the
  identifiers it passed to \<^verbatim>\<open>db.Messages\<close> (in call order), and what it returned or
  raised.
\<close>

record run =
  contacts_after :: contacts
  fetched :: "string list"
  outcome :: "error + transcript"

subsection \<open>Paths and messages\<close>

definition squote :: string where
  "squote = [CHR 0x27]"

definition DEFAULT_DB_PATH :: "'pn extern \<Rightarrow> string" where
  "DEFAULT_DB_PATH E = home E @ ''/Library/Messages/chat.db''"

definition DB_PATH :: "'pn extern \<Rightarrow> string" where
  "DB_PATH E =
     (case environ_get E ''SQLITE_DB_PATH'' of
        Some p \<Rightarrow> p
      | None \<Rightarrow> DEFAULT_DB_PATH E)"

definition not_found_invalid :: "string \<Rightarrow> string" where
  "not_found_invalid contact =
     ''Could not find contact '' @ squote @ contact @ squote @
     '' in contacts map and input is not a valid phone number''"

definition not_found :: "string \<Rightarrow> string" where
  "not_found contact =
     ''Could not find contact '' @ squote @ contact @ squote @ '' in contacts map''"

subsection \<open>Resolution and normalisation\<close>

text \<open>
  Lines 174-184, the \<^verbatim>\<open>try\<close> block: the input itself as a phone number. Both
  failures raise \<^verbatim>\<open>ValueError\<close> with a message that quotes the input.
\<close>

definition parse_as_phone :: "'pn extern \<Rightarrow> string \<Rightarrow> error + string list" where
  "parse_as_phone E contact =
     (case phone_parse E contact of
        Inl e \<Rightarrow> Inl (ValueError (not_found contact))
      | Inr parsed \<Rightarrow>
          if is_valid_number E parsed
          then Inr [format_e164 E parsed]
          else Inl (ValueError (not_found_invalid contact)))"

text \<open>
  Lines 171-184. \<^verbatim>\<open>not contact_numbers\<close> holds for \<^verbatim>\<open>None\<close> and for the empty
  list; then the input itself is parsed as a phone number.
\<close>

definition resolve_contact ::
  "'pn extern \<Rightarrow> contacts \<Rightarrow> string \<Rightarrow> contacts \<times> (error + string list)" where
  "resolve_contact E contacts_map contact =
     (let (cm, contact_numbers) = lookup_contact_numbers (contacts_json E) contacts_map contact
      in (cm,
          case contact_numbers of
            None \<Rightarrow> parse_as_phone E contact
          | Some [] \<Rightarrow> parse_as_phone E contact
          | Some (n # ns) \<Rightarrow> Inr (n # ns)))"

text \<open>Lines 189-199: the first number, parsed, validated and formatted.\<close>

definition normalize_first :: "'pn extern \<Rightarrow> string list \<Rightarrow> error + string" where
  "normalize_first E contact_numbers =
     (case contact_numbers of
        [] \<Rightarrow> Inl IndexError
      | phone_number # _ \<Rightarrow>
          (case phone_parse E phone_number of
             Inl e \<Rightarrow> Inl (ValueError (''Invalid phone number format: '' @ e))
           | Inr parsed \<Rightarrow>
               if \<not> is_valid_number E parsed
               then Inl (ValueError (''Invalid phone number: '' @ phone_number))
               else Inr (format_e164 E parsed)))"

subsection \<open>The date window and the loop\<close>

text \<open>Python's truth value of an optional string: \<^verbatim>\<open>None\<close> and \<^verbatim>\<open>""\<close> are false.\<close>

definition truthy :: "string option \<Rightarrow> bool" where
  "truthy s = (case s of None \<Rightarrow> False | Some t \<Rightarrow> t \<noteq> [])"

text \<open>Lines 211-215.\<close>

definition default_dates ::
  "'pn extern \<Rightarrow> string option \<Rightarrow> string option \<Rightarrow> string option \<times> string option" where
  "default_dates E start_date end_date =
     (if \<not> truthy start_date \<and> \<not> truthy end_date
      then (let end_dt = now E; start_dt = minus_days end_dt 7
            in (Some (strftime_ymd E start_dt), Some (strftime_ymd E end_dt)))
      else (start_date, end_date))"

text \<open>Lines 237-244.\<close>

definition shape_attachment :: "raw_attachment \<Rightarrow> attachment_record" where
  "shape_attachment att =
     \<lparr> mime_type = att_mime_type att,
       filename = att_filename att,
       file_path = att_original_path att,
       is_missing = (case att_missing att of None \<Rightarrow> False | Some b \<Rightarrow> b) \<rparr>"

text \<open>Lines 232-245, the dictionary appended for a message that passed both checks.\<close>

definition shape_message :: "raw_message \<Rightarrow> transcript_record" where
  "shape_message msg =
     \<lparr> rec_text = (case msg_text msg of None \<Rightarrow> [] | Some t \<Rightarrow> t),
       rec_date = msg_date msg,
       rec_is_from_me = msg_is_from_me msg,
       rec_has_attachments = (case msg_attachments msg of None \<Rightarrow> False | Some as \<Rightarrow> as \<noteq> []),
       rec_attachments = (case msg_attachments msg of None \<Rightarrow> [] | Some as \<Rightarrow> map shape_attachment as) \<rparr>"

text \<open>
  The texts of the \<^verbatim>\<open>ValueError\<close> that \<^verbatim>\<open>datetime.fromisoformat\<close> and
  \<^verbatim>\<open>datetime.strptime\<close> raise.
\<close>

definition invalid_isoformat :: "string \<Rightarrow> string" where
  "invalid_isoformat s = ''Invalid isoformat string: '' @ squote @ s @ squote"

definition no_match :: "string \<Rightarrow> string" where
  "no_match s =
     ''time data '' @ squote @ s @ squote @ '' does not match format '' @
     squote @ ''%Y-%m-%d'' @ squote"

text \<open>
  The two checks of lines 222-230 for one message date: \<^term>\<open>Inr True\<close> is
  \<^verbatim>\<open>continue\<close>. The bound is parsed only when it is set, at every message, and the end
  bound only for a message that passed the start bound.
\<close>

definition skipped ::
  "'pn extern \<Rightarrow> string option \<Rightarrow> string option \<Rightarrow> datetime \<Rightarrow> error + bool" where
  "skipped E start_date end_date d =
     (case (if truthy start_date
            then (case fromisoformat E (the start_date) of
                    None \<Rightarrow> Inl (ValueError (invalid_isoformat (the start_date)))
                  | Some start_dt \<Rightarrow> Inr (dt_less d start_dt))
            else Inr False) of
        Inl e \<Rightarrow> Inl e
      | Inr True \<Rightarrow> Inr True
      | Inr False \<Rightarrow>
          (if truthy end_date
           then (case fromisoformat E (the end_date) of
                   None \<Rightarrow> Inl (ValueError (invalid_isoformat (the end_date)))
                 | Some end_dt \<Rightarrow> Inr (dt_less end_dt d))
           else Inr False))"

text \<open>
  The loop of lines 218-245 over \<^verbatim>\<open>messages.message_list\<close>. The first exception, in
  list order, ends it.
\<close>

fun filter_messages ::
  "'pn extern \<Rightarrow> string option \<Rightarrow> string option \<Rightarrow> raw_message list
     \<Rightarrow> error + transcript_record list" where
  "filter_messages E start_date end_date [] = Inr []"
| "filter_messages E start_date end_date (msg # rest) =
     (case strptime_ymd E (take 10 (msg_date msg)) of
        None \<Rightarrow> Inl (ValueError (no_match (take 10 (msg_date msg))))
      | Some day \<Rightarrow>
          (case skipped E start_date end_date (day, 0) of
             Inl e \<Rightarrow> Inl e
           | Inr skip \<Rightarrow>
               (case filter_messages E start_date end_date rest of
                  Inl e \<Rightarrow> Inl e
                | Inr filtered \<Rightarrow>
                    Inr (if skip then filtered else shape_message msg # filtered))))"

subsection \<open>The tool\<close>

text \<open>\<^verbatim>\<open>get_chat_transcript\<close> (lines 162-250).\<close>

definition get_chat_transcript ::
  "'pn extern \<Rightarrow> contacts \<Rightarrow> string \<Rightarrow> string option \<Rightarrow> string option \<Rightarrow> run" where
  "get_chat_transcript E contacts_map contact start_date end_date =
     (let (cm, resolved) = resolve_contact E contacts_map contact in
      case resolved of
        Inl e \<Rightarrow> \<lparr> contacts_after = cm, fetched = [], outcome = Inl e \<rparr>
      | Inr contact_numbers \<Rightarrow>
          (case normalize_first E contact_numbers of
             Inl e \<Rightarrow> \<lparr> contacts_after = cm, fetched = [], outcome = Inl e \<rparr>
           | Inr phone_number \<Rightarrow>
               if \<not> path_exists E (DB_PATH E)
               then \<lparr> contacts_after = cm, fetched = [],
                      outcome = Inl (FileNotFoundError
                        (''Messages database not found at: '' @ DB_PATH E)) \<rparr>
               else
                 (let (sd, ed) = default_dates E start_date end_date in
                  \<lparr> contacts_after = cm, fetched = [phone_number],
                    outcome =
                      (case filter_messages E sd ed (message_list E phone_number) of
                         Inl e \<Rightarrow> Inl e
                       | Inr filtered_messages \<Rightarrow>
                           Inr \<lparr> messages = filtered_messages,
                                 total_count = length filtered_messages \<rparr>) \<rparr>)))"

section \<open>Two notions for the statements\<close>

text \<open>
  A message for which the loop reaches the \<^verbatim>\<open>append\<close> of line 232: its date parses
  and neither check says \<^verbatim>\<open>continue\<close>.
\<close>

definition retained :: "'pn extern \<Rightarrow> string option \<Rightarrow> string option \<Rightarrow> raw_message \<Rightarrow> bool" where
  "retained E start_date end_date msg =
     (case strptime_ymd E (take 10 (msg_date msg)) of
        None \<Rightarrow> False
      | Some day \<Rightarrow> skipped E start_date end_date (day, 0) = Inr False)"

text \<open>
  The argument \<^term>\<open>s\<close> of the tool stands for the bound \<^term>\<open>w\<close> of a date window:
  it is not set (\<^verbatim>\<open>None\<close> or the empty string) when the window has no bound, and it
  is a calendar date, which \<^verbatim>\<open>fromisoformat\<close> reads as that day at midnight, when the
  window has one.
\<close>

definition window_bound :: "'pn extern \<Rightarrow> string option \<Rightarrow> int option \<Rightarrow> bool" where
  "window_bound E s w =
     (case w of
        None \<Rightarrow> \<not> truthy s
      | Some d \<Rightarrow> truthy s \<and> fromisoformat E (the s) = Some (d, 0))"

section \<open>The specification's wording\<close>

text \<open>
  Three definitions that follow the specification's sentences, not the code; the
  theorems compare the code with them.
\<close>

text \<open>
  Section 4.1, step 2: "the first entry whose display name contains \<^verbatim>\<open>contact\<close>
  (case-insensitive) and that has at least one phone wins; take its first phone."
\<close>

fun spec_substring_winner :: "string \<Rightarrow> contacts \<Rightarrow> string option" where
  "spec_substring_winner contact [] = None"
| "spec_substring_winner contact ((name, info) # rest) =
     (if sublist (lower contact) (lower name) \<and> dict_get info ''phones'' [] \<noteq> []
      then Some (hd (dict_get info ''phones'' []))
      else spec_substring_winner contact rest)"

text \<open>
  Section 4.4: a day is in the window when it is "\<^verbatim>\<open>>= window.start\<close> (when set) and
  \<^verbatim>\<open><= window.end\<close> (when set)".
\<close>

definition in_window :: "int option \<Rightarrow> int option \<Rightarrow> int \<Rightarrow> bool" where
  "in_window lo hi d =
     ((case lo of None \<Rightarrow> True | Some s \<Rightarrow> s \<le> d) \<and>
      (case hi of None \<Rightarrow> True | Some e \<Rightarrow> d \<le> e))"

text \<open>Section 8: "the 7 days ending today inclusive".\<close>

definition spec_seven_days :: "int \<Rightarrow> int list" where
  "spec_seven_days today = map (\<lambda>k. today - k) [6, 5, 4, 3, 2, 1, 0]"

section \<open>Concrete collaborators for worked examples\<close>

text \<open>
  The theorems below hold for every value of the collaborators' record. To run the
  model on concrete inputs the record needs one concrete value; this section gives it.
  None of it is code of the repository.
\<close>

subsection \<open>Calendar\<close>

text \<open>
  The Gregorian day number of CPython's \<^verbatim>\<open>datetime\<close> (\<^verbatim>\<open>_ymd2ord\<close> and
  \<^verbatim>\<open>_ord2ymd\<close>), and the zero-padded form \<^verbatim>\<open>YYYY-MM-DD\<close>.
\<close>

definition is_leap :: "int \<Rightarrow> bool" where
  "is_leap y = (y mod 4 = 0 \<and> (y mod 100 \<noteq> 0 \<or> y mod 400 = 0))"

definition days_before_year :: "int \<Rightarrow> int" where
  "days_before_year y = (y - 1) * 365 + (y - 1) div 4 - (y - 1) div 100 + (y - 1) div 400"

definition days_in_month :: "int \<Rightarrow> int \<Rightarrow> int" where
  "days_in_month y m =
     (if m = 2 then (if is_leap y then 29 else 28)
      else if m = 4 \<or> m = 6 \<or> m = 9 \<or> m = 11 then 30 else 31)"

definition days_before_month :: "int \<Rightarrow> int \<Rightarrow> int" where
  "days_before_month y m =
     [0, 31, 59, 90, 120, 151, 181, 212, 243, 273, 304, 334] ! nat (m - 1)
       + (if 2 < m \<and> is_leap y then 1 else 0)"

definition ymd2ord :: "int \<Rightarrow> int \<Rightarrow> int \<Rightarrow> int" where
  "ymd2ord y m d = days_before_year y + days_before_month y m + d"

definition ord2ymd :: "int \<Rightarrow> int \<times> int \<times> int" where
  "ord2ymd n0 =
     (let n = n0 - 1;
          n400 = n div 146097; n = n mod 146097;
          n100 = n div 36524; n = n mod 36524;
          n4 = n div 1461; n = n mod 1461;
          n1 = n div 365; n = n mod 365;
          year = n400 * 400 + 1 + n100 * 100 + n4 * 4 + n1
      in if n1 = 4 \<or> n100 = 4 then (year - 1, 12, 31)
         else (let leapyear = (n1 = 3 \<and> (n4 \<noteq> 24 \<or> n100 = 3));
                   month = (n + 50) div 32;
                   preceding = days_before_month 1 month + (if 2 < month \<and> leapyear then 1 else 0)
               in if n < preceding
                  then (year, month - 1,
                        n - (preceding - (days_in_month 1 (month - 1)
                               + (if month - 1 = 2 \<and> leapyear then 1 else 0))) + 1)
                  else (year, month, n - preceding + 1)))"

definition digit_of :: "char \<Rightarrow> int option" where
  "digit_of c = map_of (zip ''0123456789'' [0, 1, 2, 3, 4, 5, 6, 7, 8, 9]) c"

fun number_of :: "string \<Rightarrow> int option" where
  "number_of [] = None"
| "number_of [c] = digit_of c"
| "number_of cs =
     (case (number_of (butlast cs), digit_of (last cs)) of
        (Some n, Some d) \<Rightarrow> Some (10 * n + d)
      | _ \<Rightarrow> None)"

definition digit_char :: "int \<Rightarrow> char" where
  "digit_char d = ''0123456789'' ! nat (d mod 10)"

definition pad2 :: "int \<Rightarrow> string" where
  "pad2 n = [digit_char (n div 10), digit_char n]"

definition pad4 :: "int \<Rightarrow> string" where
  "pad4 n = [digit_char (n div 1000), digit_char (n div 100), digit_char (n div 10), digit_char n]"

definition parse_ymd :: "string \<Rightarrow> int option" where
  "parse_ymd s =
     (if length s = 10 \<and> s ! 4 = CHR ''-'' \<and> s ! 7 = CHR ''-''
      then (case (number_of (take 4 s), number_of (take 2 (drop 5 s)), number_of (drop 8 s)) of
              (Some y, Some m, Some d) \<Rightarrow>
                if 1 \<le> y \<and> 1 \<le> m \<and> m \<le> 12 \<and> 1 \<le> d \<and> d \<le> days_in_month y m
                then Some (ymd2ord y m d) else None
            | _ \<Rightarrow> None)
      else None)"

definition format_ymd :: "datetime \<Rightarrow> string" where
  "format_ymd dt =
     (case ord2ymd (fst dt) of (y, m, d) \<Rightarrow> pad4 y @ ''-'' @ pad2 m @ ''-'' @ pad2 d)"

definition parse_iso_date :: "string \<Rightarrow> datetime option" where
  "parse_iso_date s = (case parse_ymd s of None \<Rightarrow> None | Some d \<Rightarrow> Some (d, 0))"

subsection \<open>Phone numbers\<close>

text \<open>
  A stand-in for \<^verbatim>\<open>phonenumbers\<close> with region \<^verbatim>\<open>US\<close>, for numbers of the North
  American plan only: a parsed number is its ten national digits.
\<close>

definition nanp_parse :: "string \<Rightarrow> string + string" where
  "nanp_parse s =
     (let ds = filter (\<lambda>c. digit_of c \<noteq> None) s in
      if ds = [] then Inl ''The string supplied did not seem to be a phone number.''
      else if length ds = 11 \<and> hd ds = CHR ''1'' then Inr (tl ds)
      else Inr ds)"

definition nanp_valid :: "string \<Rightarrow> bool" where
  "nanp_valid ds =
     (length ds = 10 \<and> list_all (\<lambda>c. digit_of c \<noteq> None) ds
        \<and> digit_of (ds ! 0) \<notin> {Some 0, Some 1} \<and> digit_of (ds ! 3) \<notin> {Some 0, Some 1})"

definition nanp_e164 :: "string \<Rightarrow> string" where
  "nanp_e164 ds = ''+1'' @ ds"

subsection \<open>A small world\<close>

definition demo_contacts :: contacts where
  "demo_contacts =
     [(''Jane Smith'', [(''phones'', []), (''emails'', [''jane@example.com''])]),
      (''Jane Doe'', [(''phones'', [''(415) 555-2671'', ''212-555-0187'']), (''emails'', [])]),
      (''Bob Stone'', [(''phones'', [''12345'']), (''emails'', [])])]"

definition msg_at :: "string \<Rightarrow> string \<Rightarrow> raw_message" where
  "msg_at d t =
     \<lparr> msg_text = Some t, msg_date = d, msg_is_from_me = False, msg_attachments = None \<rparr>"

definition demo_attachment :: raw_attachment where
  "demo_attachment =
     \<lparr> att_mime_type = Some ''image/png'', att_filename = Some ''a.png'',
       att_original_path = None, att_missing = None \<rparr>"

definition demo_messages :: "raw_message list" where
  "demo_messages =
     [msg_at ''2024-03-07 23:59:59'' ''a'',
      msg_at ''2024-03-08 09:00:00'' ''b'',
      \<lparr> msg_text = None, msg_date = ''2024-03-15 08:00:00'', msg_is_from_me = True,
        msg_attachments = Some [demo_attachment] \<rparr>,
      msg_at ''2024-03-16 00:00:01'' ''d'']"

text \<open>
  The directory file holds \<^term>\<open>demo_contacts\<close>; the store is at the default path and
  has messages for one number; it is 10:30 on 15 March 2024.
\<close>

definition demo :: "string extern" where
  "demo =
     \<lparr> contacts_json = FileJson demo_contacts,
       phone_parse = nanp_parse,
       is_valid_number = nanp_valid,
       format_e164 = nanp_e164,
       environ_get = (\<lambda>k. None),
       home = ''/Users/me'',
       path_exists = (\<lambda>p. p = ''/Users/me/Library/Messages/chat.db''),
       message_list = (\<lambda>n. if n = ''+14155552671'' then demo_messages else []),
       now = (ymd2ord 2024 3 15, 37800000000),
       strftime_ymd = format_ymd,
       strptime_ymd = parse_ymd,
       fromisoformat = parse_iso_date \<rparr>"

text \<open>
  The same world with \<^verbatim>\<open>SQLITE_DB_PATH\<close> set to a path where there is no file.
\<close>

definition elsewhere :: "string extern" where
  "elsewhere =
     demo\<lparr> environ_get := (\<lambda>k. if k = ''SQLITE_DB_PATH'' then Some ''/tmp/absent.db'' else None) \<rparr>"

text \<open>
  What the tool returns in the small world for Jane Doe when no dates are given.
\<close>

definition demo_transcript :: transcript where
  "demo_transcript =
     \<lparr> messages =
         [\<lparr> rec_text = ''b'', rec_date = ''2024-03-08 09:00:00'', rec_is_from_me = False,
            rec_has_attachments = False, rec_attachments = [] \<rparr>,
          \<lparr> rec_text = [], rec_date = ''2024-03-15 08:00:00'', rec_is_from_me = True,
            rec_has_attachments = True,
            rec_attachments =
              [\<lparr> mime_type = Some ''image/png'', filename = Some ''a.png'', file_path = None,
                 is_missing = False \<rparr>] \<rparr>],
       total_count = 2 \<rparr>"

section \<open>Basic facts\<close>

subsection \<open>Lookup and resolution\<close>

lemma partial_match_None:
  "\<forall>(n, i) \<in> set cm. \<not> sublist c (lower n) \<Longrightarrow> partial_match c cm = None"
  by (induction cm) auto

lemma partial_match_append:
  "\<forall>(n, i) \<in> set pre. \<not> sublist c (lower n) \<Longrightarrow>
     partial_match c (pre @ rest) = partial_match c rest"
  by (induction pre) auto

lemma lookup_fst:
  "fst (lookup_contact_numbers f cm0 contact) = ensure_loaded f cm0"
  by (simp add: lookup_contact_numbers_def Let_def)

lemma lookup_snd:
  "snd (lookup_contact_numbers f cm0 contact) =
     (case map_of (ensure_loaded f cm0) contact of
        Some info \<Rightarrow> Some (dict_get info ''phones'' [])
      | None \<Rightarrow> partial_match (lower contact) (ensure_loaded f cm0))"
  by (simp add: lookup_contact_numbers_def Let_def)

lemma resolve_fst:
  "fst (resolve_contact E cm0 contact) = ensure_loaded (contacts_json E) cm0"
  by (simp add: resolve_contact_def lookup_contact_numbers_def Let_def)

lemma resolve_snd:
  "snd (resolve_contact E cm0 contact) =
     (case snd (lookup_contact_numbers (contacts_json E) cm0 contact) of
        None \<Rightarrow> parse_as_phone E contact
      | Some [] \<Rightarrow> parse_as_phone E contact
      | Some (n # ns) \<Rightarrow> Inr (n # ns))"
  by (simp add: resolve_contact_def split: prod.splits)

subsection \<open>The stages of a run\<close>

lemma run_error:
  "snd (resolve_contact E cm0 contact) = Inl e \<Longrightarrow>
     get_chat_transcript E cm0 contact sd ed =
       \<lparr> contacts_after = fst (resolve_contact E cm0 contact), fetched = [], outcome = Inl e \<rparr>"
  by (cases "resolve_contact E cm0 contact") (simp add: get_chat_transcript_def)

lemma run_norm_error:
  "snd (resolve_contact E cm0 contact) = Inr nums \<Longrightarrow> normalize_first E nums = Inl e \<Longrightarrow>
     get_chat_transcript E cm0 contact sd ed =
       \<lparr> contacts_after = fst (resolve_contact E cm0 contact), fetched = [], outcome = Inl e \<rparr>"
  by (cases "resolve_contact E cm0 contact") (simp add: get_chat_transcript_def)

lemma run_no_store:
  "snd (resolve_contact E cm0 contact) = Inr nums \<Longrightarrow> normalize_first E nums = Inr n \<Longrightarrow>
   \<not> path_exists E (DB_PATH E) \<Longrightarrow>
     get_chat_transcript E cm0 contact sd ed =
       \<lparr> contacts_after = fst (resolve_contact E cm0 contact), fetched = [],
         outcome = Inl (FileNotFoundError (''Messages database not found at: '' @ DB_PATH E)) \<rparr>"
  by (cases "resolve_contact E cm0 contact") (simp add: get_chat_transcript_def)

lemma run_fetch:
  "snd (resolve_contact E cm0 contact) = Inr nums \<Longrightarrow> normalize_first E nums = Inr n \<Longrightarrow>
   path_exists E (DB_PATH E) \<Longrightarrow>
     get_chat_transcript E cm0 contact sd ed =
       \<lparr> contacts_after = fst (resolve_contact E cm0 contact), fetched = [n],
         outcome =
           (case filter_messages E (fst (default_dates E sd ed)) (snd (default_dates E sd ed))
                   (message_list E n) of
              Inl e \<Rightarrow> Inl e
            | Inr filtered \<Rightarrow> Inr \<lparr> messages = filtered, total_count = length filtered \<rparr>) \<rparr>"
  by (cases "resolve_contact E cm0 contact"; cases "default_dates E sd ed")
     (simp add: get_chat_transcript_def)

lemma run_contacts_after:
  "contacts_after (get_chat_transcript E cm0 contact sd ed) = ensure_loaded (contacts_json E) cm0"
proof (cases "snd (resolve_contact E cm0 contact)")
  case (Inl e)
  then show ?thesis by (simp add: run_error resolve_fst)
next
  case (Inr nums)
  show ?thesis
  proof (cases "normalize_first E nums")
    case (Inl e)
    with Inr show ?thesis by (simp add: run_norm_error resolve_fst)
  next
    case n: (Inr n)
    show ?thesis
      by (cases "path_exists E (DB_PATH E)")
         (simp_all add: run_fetch [OF Inr n] run_no_store [OF Inr n] resolve_fst)
  qed
qed

lemma sublist_not_found: "sublist contact (not_found contact)"
proof -
  have "not_found contact =
      (''Could not find contact '' @ squote) @ contact @ (squote @ '' in contacts map'')"
    by (simp add: not_found_def)
  then show ?thesis unfolding sublist_def by blast
qed

lemma sublist_not_found_invalid: "sublist contact (not_found_invalid contact)"
proof -
  have "not_found_invalid contact =
      (''Could not find contact '' @ squote) @ contact @
      (squote @ '' in contacts map and input is not a valid phone number'')"
    by (simp add: not_found_invalid_def)
  then show ?thesis unfolding sublist_def by blast
qed

subsection \<open>Normalisation\<close>

lemma normalize_first_Cons:
  "normalize_first E (p # ps) =
     (case phone_parse E p of
        Inl e \<Rightarrow> Inl (ValueError (''Invalid phone number format: '' @ e))
      | Inr q \<Rightarrow>
          if is_valid_number E q then Inr (format_e164 E q)
          else Inl (ValueError (''Invalid phone number: '' @ p)))"
  by (simp add: normalize_first_def split: sum.splits)

lemma normalize_first_canonical:
  assumes "normalize_first E nums = Inr n"
  shows "\<exists>s q. phone_parse E s = Inr q \<and> is_valid_number E q \<and> n = format_e164 E q"
proof (cases nums)
  case Nil
  with assms show ?thesis by (simp add: normalize_first_def)
next
  case (Cons p ps)
  with assms show ?thesis
    by (auto simp: normalize_first_Cons split: sum.splits if_splits)
qed

lemma fetched_cases:
  "fetched (get_chat_transcript E cm0 contact sd ed) =
     (case snd (resolve_contact E cm0 contact) of
        Inl e \<Rightarrow> []
      | Inr nums \<Rightarrow>
          (case normalize_first E nums of
             Inl e \<Rightarrow> []
           | Inr n \<Rightarrow> if path_exists E (DB_PATH E) then [n] else []))"
proof (cases "snd (resolve_contact E cm0 contact)")
  case (Inl e)
  then show ?thesis by (simp add: run_error)
next
  case (Inr nums)
  show ?thesis
  proof (cases "normalize_first E nums")
    case (Inl e)
    with Inr show ?thesis by (simp add: run_norm_error)
  next
    case n: (Inr n)
    show ?thesis
      by (cases "path_exists E (DB_PATH E)")
         (simp_all add: run_fetch [OF Inr n] run_no_store [OF Inr n] Inr n)
  qed
qed

subsection \<open>The loop\<close>

lemma retained_iff:
  "strptime_ymd E (take 10 (msg_date m)) = Some d \<Longrightarrow> skipped E sd ed (d, 0) = Inr b \<Longrightarrow>
     retained E sd ed m = (\<not> b)"
  by (simp add: retained_def)

lemma filter_messages_Inr:
  "filter_messages E sd ed ms = Inr out \<Longrightarrow>
     out = map shape_message (filter (retained E sd ed) ms)"
proof (induction ms arbitrary: out)
  case Nil
  then show ?case by simp
next
  case (Cons m ms)
  from Cons.prems obtain d skip rest where
    d: "strptime_ymd E (take 10 (msg_date m)) = Some d"
    and s: "skipped E sd ed (d, 0) = Inr skip"
    and r: "filter_messages E sd ed ms = Inr rest"
    and o: "out = (if skip then rest else shape_message m # rest)"
    by (auto split: option.splits sum.splits)
  from Cons.IH [OF r] have "rest = map shape_message (filter (retained E sd ed) ms)" .
  with d s o show ?case by (simp add: retained_iff [OF d s])
qed

lemma filter_messages_total:
  "\<forall>m \<in> set ms. \<exists>d b. strptime_ymd E (take 10 (msg_date m)) = Some d
       \<and> skipped E sd ed (d, 0) = Inr b \<Longrightarrow>
     filter_messages E sd ed ms = Inr (map shape_message (filter (retained E sd ed) ms))"
proof (induction ms)
  case Nil
  then show ?case by simp
next
  case (Cons m ms)
  then obtain d b where d: "strptime_ymd E (take 10 (msg_date m)) = Some d"
    and b: "skipped E sd ed (d, 0) = Inr b"
    by auto
  from Cons have "filter_messages E sd ed ms = Inr (map shape_message (filter (retained E sd ed) ms))"
    by simp
  with d b show ?case by (simp add: retained_iff [OF d b])
qed

lemma skipped_window:
  assumes "window_bound E sd ws" and "window_bound E ed we"
  shows "skipped E sd ed (d, 0) = Inr (\<not> in_window ws we d)"
  using assms
  by (cases ws; cases we)
     (auto simp: window_bound_def skipped_def in_window_def dt_less_def split: bool.splits)

section \<open>The small world, evaluated\<close>

text \<open>What the concrete collaborators compute on the inputs of the worked examples.\<close>

subsection \<open>Directory and phone numbers\<close>

lemmas world_simps =
  demo_def demo_contacts_def ensure_loaded_def load_contacts_map_def dict_get_def
  lower_def lower_char_def sublist_code prefix_code

lemma demo_loaded: "ensure_loaded (contacts_json demo) demo_contacts = demo_contacts"
  by (simp add: world_simps)

lemma demo_parse_jane: "parse_as_phone demo ''jane'' = Inl (ValueError (not_found ''jane''))"
  by (simp add: parse_as_phone_def demo_def nanp_parse_def digit_of_def)

lemma demo_parse_empty: "parse_as_phone demo [] = Inl (ValueError (not_found []))"
  by (simp add: parse_as_phone_def demo_def nanp_parse_def)

lemma demo_lookup_jane:
  "lookup_contact_numbers (contacts_json demo) demo_contacts ''jane'' = (demo_contacts, Some [])"
  by (simp add: lookup_contact_numbers_def world_simps)

lemma demo_lookup_empty:
  "lookup_contact_numbers (contacts_json demo) demo_contacts [] = (demo_contacts, Some [])"
  by (simp add: lookup_contact_numbers_def world_simps)

lemma demo_lookup_jane_doe:
  "lookup_contact_numbers (contacts_json demo) demo_contacts ''Jane Doe'' =
     (demo_contacts, Some [''(415) 555-2671'', ''212-555-0187''])"
  by (simp add: lookup_contact_numbers_def world_simps)

lemma demo_parse_first_phone: "phone_parse demo ''(415) 555-2671'' = Inr ''4155552671''"
  by (simp add: demo_def nanp_parse_def digit_of_def)

lemma demo_valid_first_phone: "is_valid_number demo ''4155552671''"
  by (simp add: demo_def nanp_valid_def digit_of_def)

lemma demo_format_first_phone: "format_e164 demo ''4155552671'' = ''+14155552671''"
  by (simp add: demo_def nanp_e164_def)

lemma demo_store: "path_exists demo (DB_PATH demo)"
  by (simp add: demo_def DB_PATH_def DEFAULT_DB_PATH_def)

subsection \<open>Dates\<close>

lemmas calendar_simps =
  parse_ymd_def parse_iso_date_def digit_of_def ymd2ord_def days_before_year_def
  days_before_month_def days_in_month_def is_leap_def

lemma demo_days:
  "strptime_ymd demo ''2024-03-07'' = Some 738952"
  "strptime_ymd demo ''2024-03-08'' = Some 738953"
  "strptime_ymd demo ''2024-03-15'' = Some 738960"
  "strptime_ymd demo ''2024-03-16'' = Some 738961"
  by (simp_all add: demo_def calendar_simps)

lemma demo_bounds:
  "fromisoformat demo ''2024-03-08'' = Some (738953, 0)"
  "fromisoformat demo ''2024-03-15'' = Some (738960, 0)"
  by (simp_all add: demo_def calendar_simps)

lemma demo_today: "now demo = (738960, 37800000000)"
  by (simp add: demo_def calendar_simps)

subsection \<open>A whole run\<close>

lemma demo_default_dates:
  "default_dates demo None None = (Some ''2024-03-08'', Some ''2024-03-15'')"
  by (simp add: default_dates_def truthy_def demo_def minus_days_def format_ymd_def ymd2ord_def
      ord2ymd_def days_before_year_def days_before_month_def days_in_month_def is_leap_def
      pad2_def pad4_def digit_char_def Let_def)

lemma demo_filter:
  "filter_messages demo (Some ''2024-03-08'') (Some ''2024-03-15'') demo_messages =
     Inr (messages demo_transcript)"
  by (simp add: demo_messages_def msg_at_def demo_days skipped_def truthy_def demo_bounds
      dt_less_def shape_message_def shape_attachment_def demo_attachment_def demo_transcript_def)

lemma demo_messages_of: "message_list demo ''+14155552671'' = demo_messages"
  by (simp add: demo_def)

lemma demo_run_jane_doe:
  "get_chat_transcript demo demo_contacts ''Jane Doe'' None None =
     \<lparr> contacts_after = demo_contacts, fetched = [''+14155552671''],
       outcome = Inr demo_transcript \<rparr>"
proof -
  have resolved: "snd (resolve_contact demo demo_contacts ''Jane Doe'') =
      Inr [''(415) 555-2671'', ''212-555-0187'']"
    by (simp add: resolve_snd demo_lookup_jane_doe)
  have normalized: "normalize_first demo [''(415) 555-2671'', ''212-555-0187''] = Inr ''+14155552671''"
    by (simp add: normalize_first_Cons demo_parse_first_phone demo_valid_first_phone
        demo_format_first_phone)
  show ?thesis
    by (simp add: run_fetch [OF resolved normalized demo_store] resolve_fst demo_loaded
        demo_default_dates demo_messages_of demo_filter)
       (simp add: demo_transcript_def)
qed

lemma demo_strftime:
  "strftime_ymd demo (minus_days (now demo) 7) = ''2024-03-08''"
  "strftime_ymd demo (now demo) = ''2024-03-15''"
  using demo_default_dates by (simp_all add: default_dates_def truthy_def Let_def)

section \<open>Substring resolution\<close>

text \<open>
  Claim C1, as the code has it. When the contact string is no key of the directory, the
  scan goes through the entries in stored order and stops at the first entry whose
  display name contains the contact string case-insensitively, whether or not that
  entry has a phone: \<^verbatim>\<open>lookup_contact_numbers\<close> returns that entry's phone list and
  never looks at a later entry. When the list is not empty, resolution continues with
  it (its first phone is the one normalised next); when it is empty, the contact string
  itself is parsed as a phone number.
\<close>

theorem substring_scan_stops_at_first_name_match:
  assumes dir: "ensure_loaded (contacts_json E) cm0 = pre @ (name, info) # post"
    and no_exact: "map_of (pre @ (name, info) # post) contact = None"
    and before: "\<forall>(n, i) \<in> set pre. \<not> sublist (lower contact) (lower n)"
    and hit: "sublist (lower contact) (lower name)"
  shows "snd (lookup_contact_numbers (contacts_json E) cm0 contact) = Some (dict_get info ''phones'' [])
       \<and> snd (resolve_contact E cm0 contact) =
           (case dict_get info ''phones'' [] of
              [] \<Rightarrow> parse_as_phone E contact
            | p # ps \<Rightarrow> Inr (p # ps))"
proof -
  have pm: "partial_match (lower contact) (pre @ (name, info) # post) = Some (dict_get info ''phones'' [])"
    using before hit by (simp add: partial_match_append)
  have lk: "snd (lookup_contact_numbers (contacts_json E) cm0 contact) = Some (dict_get info ''phones'' [])"
    unfolding lookup_snd dir using no_exact pm by (simp del: map_of_append map_of.simps)
  show ?thesis
    using lk by (simp add: resolve_snd split: list.splits)
qed

text \<open>
  The theorem at \<^verbatim>\<open>"doe"\<close>: the entry of Jane Smith does not match, Jane Doe's does,
  and her two numbers come back in their stored order.
\<close>

theorem substring_scan_witness:
  "snd (lookup_contact_numbers (contacts_json demo) demo_contacts ''doe'') =
     Some [''(415) 555-2671'', ''212-555-0187'']
   \<and> snd (resolve_contact demo demo_contacts ''doe'') = Inr [''(415) 555-2671'', ''212-555-0187'']"
proof -
  let ?pre = "[(''Jane Smith'', [(''phones'', []), (''emails'', [''jane@example.com''])])]"
  let ?info = "[(''phones'', [''(415) 555-2671'', ''212-555-0187'']), (''emails'', [])]"
  let ?post = "[(''Bob Stone'', [(''phones'', [''12345'']), (''emails'', [])])]"
  have dir: "ensure_loaded (contacts_json demo) demo_contacts = ?pre @ (''Jane Doe'', ?info) # ?post"
    by (simp add: world_simps)
  have no_exact: "map_of (?pre @ (''Jane Doe'', ?info) # ?post) ''doe'' = None"
    by simp
  have before: "\<forall>(n, i) \<in> set ?pre. \<not> sublist (lower ''doe'') (lower n)"
    by (simp add: world_simps)
  have hit: "sublist (lower ''doe'') (lower ''Jane Doe'')"
    by (simp add: world_simps)
  show ?thesis
    using substring_scan_stops_at_first_name_match [OF dir no_exact before hit]
    by (simp add: dict_get_def)
qed

text \<open>
  Claim C1 as it is written fails at \<^verbatim>\<open>"jane"\<close>. Jane Smith (an e-mail address, no
  phone) comes first and Jane Doe second. By the specification's wording Jane Doe wins
  with her first phone; the code returns Jane Smith's empty list, and the call ends
  with the contact-not-found error.
\<close>

theorem substring_winner_counterexample:
  "map_of demo_contacts ''jane'' = None
   \<and> spec_substring_winner ''jane'' demo_contacts = Some ''(415) 555-2671''
   \<and> snd (lookup_contact_numbers (contacts_json demo) demo_contacts ''jane'') = Some []
   \<and> outcome (get_chat_transcript demo demo_contacts ''jane'' None None) =
       Inl (ValueError (not_found ''jane''))"
proof -
  have a: "map_of demo_contacts ''jane'' = None"
    by (simp add: demo_contacts_def)
  have b: "spec_substring_winner ''jane'' demo_contacts = Some ''(415) 555-2671''"
    by (simp add: world_simps)
  have c: "snd (lookup_contact_numbers (contacts_json demo) demo_contacts ''jane'') = Some []"
    by (simp add: demo_lookup_jane)
  have "snd (resolve_contact demo demo_contacts ''jane'') = Inl (ValueError (not_found ''jane''))"
    by (simp add: resolve_snd demo_lookup_jane demo_parse_jane)
  then have d: "outcome (get_chat_transcript demo demo_contacts ''jane'' None None) =
       Inl (ValueError (not_found ''jane''))"
    by (simp add: run_error)
  from a b c d show ?thesis by simp
qed

section \<open>The default window\<close>

text \<open>
  Claim C2, as the code has it. When both \<^verbatim>\<open>start_date\<close> and \<^verbatim>\<open>end_date\<close> are
  omitted (\<^verbatim>\<open>None\<close> or empty), the dates become the \<^verbatim>\<open>%Y-%m-%d\<close> texts of today
  minus 7 days and of today. Provided these texts are not empty and read back as those
  two days, the window is from today minus 7 days to today, both bounds inclusive: a
  message of day \<open>d\<close> is skipped exactly when \<open>d\<close> is before today minus 7 or after
  today.
\<close>

theorem default_window_is_today_minus_7_to_today:
  assumes omitted: "\<not> truthy start_date" "\<not> truthy end_date"
    and lo: "strftime_ymd E (minus_days (now E) 7) \<noteq> []"
      "fromisoformat E (strftime_ymd E (minus_days (now E) 7)) = Some (fst (now E) - 7, 0)"
    and hi: "strftime_ymd E (now E) \<noteq> []"
      "fromisoformat E (strftime_ymd E (now E)) = Some (fst (now E), 0)"
  shows "default_dates E start_date end_date =
           (Some (strftime_ymd E (minus_days (now E) 7)), Some (strftime_ymd E (now E)))
       \<and> window_bound E (fst (default_dates E start_date end_date)) (Some (fst (now E) - 7))
       \<and> window_bound E (snd (default_dates E start_date end_date)) (Some (fst (now E)))
       \<and> (\<forall>d. skipped E (fst (default_dates E start_date end_date))
                 (snd (default_dates E start_date end_date)) (d, 0) =
               Inr (\<not> (fst (now E) - 7 \<le> d \<and> d \<le> fst (now E))))"
proof -
  have dd: "default_dates E start_date end_date =
           (Some (strftime_ymd E (minus_days (now E) 7)), Some (strftime_ymd E (now E)))"
    using omitted by (simp add: default_dates_def Let_def)
  have wl: "window_bound E (fst (default_dates E start_date end_date)) (Some (fst (now E) - 7))"
    using lo by (simp add: dd window_bound_def truthy_def)
  have wh: "window_bound E (snd (default_dates E start_date end_date)) (Some (fst (now E)))"
    using hi by (simp add: dd window_bound_def truthy_def)
  have "\<forall>d. skipped E (fst (default_dates E start_date end_date))
                 (snd (default_dates E start_date end_date)) (d, 0) =
               Inr (\<not> (fst (now E) - 7 \<le> d \<and> d \<le> fst (now E)))"
    by (simp add: skipped_window [OF wl wh] in_window_def)
  with dd wl wh show ?thesis by blast
qed

text \<open>
  The theorem on 15 March 2024: the window is from 8 to 15 March; 7 and 16 March are
  skipped, 8 and 15 March are not.
\<close>

theorem default_window_witness:
  "default_dates demo None None = (Some ''2024-03-08'', Some ''2024-03-15'')
   \<and> skipped demo (Some ''2024-03-08'') (Some ''2024-03-15'') (738952, 0) = Inr True
   \<and> skipped demo (Some ''2024-03-08'') (Some ''2024-03-15'') (738953, 0) = Inr False
   \<and> skipped demo (Some ''2024-03-08'') (Some ''2024-03-15'') (738960, 0) = Inr False
   \<and> skipped demo (Some ''2024-03-08'') (Some ''2024-03-15'') (738961, 0) = Inr True"
proof -
  have omitted: "\<not> truthy None" by (simp add: truthy_def)
  have lo1: "strftime_ymd demo (minus_days (now demo) 7) \<noteq> []"
    by (simp add: demo_strftime)
  have lo2: "fromisoformat demo (strftime_ymd demo (minus_days (now demo) 7)) = Some (fst (now demo) - 7, 0)"
    unfolding demo_strftime demo_bounds by (simp add: demo_today)
  have hi1: "strftime_ymd demo (now demo) \<noteq> []"
    by (simp add: demo_strftime)
  have hi2: "fromisoformat demo (strftime_ymd demo (now demo)) = Some (fst (now demo), 0)"
    unfolding demo_strftime demo_bounds by (simp add: demo_today)
  from default_window_is_today_minus_7_to_today [OF omitted omitted lo1 lo2 hi1 hi2]
  have a: "default_dates demo None None = (Some ''2024-03-08'', Some ''2024-03-15'')"
    and b: "\<forall>d. skipped demo (fst (default_dates demo None None))
                 (snd (default_dates demo None None)) (d, 0) =
               Inr (\<not> (fst (now demo) - 7 \<le> d \<and> d \<le> fst (now demo)))"
    unfolding demo_strftime by blast+
  from b show ?thesis
    unfolding a by (simp add: demo_today)
qed

text \<open>
  Claim C2 as it is written says that this window spans exactly the 7 days ending today.
  It does not: on 15 March 2024 the run for Jane Doe with no dates returns her message
  of 8 March, the day 7 days before today, which is not one of the 7 days that end
  today.
\<close>

theorem seven_day_window_counterexample:
  "outcome (get_chat_transcript demo demo_contacts ''Jane Doe'' None None) = Inr demo_transcript
   \<and> rec_date (hd (messages demo_transcript)) = ''2024-03-08 09:00:00''
   \<and> strptime_ymd demo (take 10 ''2024-03-08 09:00:00'') = Some (fst (now demo) - 7)
   \<and> fst (now demo) - 7 \<notin> set (spec_seven_days (fst (now demo)))"
  by (simp add: demo_run_jane_doe demo_days demo_today spec_seven_days_def)
     (simp add: demo_transcript_def)

section \<open>The date filter\<close>

text \<open>
  Claim C3. For every message list whose dates parse and every date window, the loop
  keeps a message exactly when its day (the first ten characters of its timestamp, read
  as a date) is on or after the window's start, when the start is set, and on or before
  the window's end, when the end is set; the kept messages stay in their original
  order. Both bounds are inclusive: the start day and the end day are in the window, the
  day before the start and the day after the end are not.
\<close>

theorem filter_keeps_days_in_window:
  assumes dates: "\<forall>m \<in> set ms. strptime_ymd E (take 10 (msg_date m)) \<noteq> None"
    and lo: "window_bound E start_date ws"
    and hi: "window_bound E end_date we"
  shows "filter_messages E start_date end_date ms =
           Inr (map shape_message
                  (filter (\<lambda>m. in_window ws we (the (strptime_ymd E (take 10 (msg_date m))))) ms))
       \<and> (\<forall>s e. s \<le> e \<longrightarrow>
             in_window (Some s) (Some e) s \<and> in_window (Some s) (Some e) e
             \<and> \<not> in_window (Some s) (Some e) (s - 1) \<and> \<not> in_window (Some s) (Some e) (e + 1))"
proof -
  have all: "\<forall>m \<in> set ms. \<exists>d b. strptime_ymd E (take 10 (msg_date m)) = Some d
       \<and> skipped E start_date end_date (d, 0) = Inr b"
    using dates by (auto simp: skipped_window [OF lo hi])
  have same: "filter (retained E start_date end_date) ms =
      filter (\<lambda>m. in_window ws we (the (strptime_ymd E (take 10 (msg_date m))))) ms"
    using dates by (intro filter_cong) (auto simp: retained_iff [OF _ skipped_window [OF lo hi]])
  show ?thesis
    using filter_messages_total [OF all] same by (simp add: in_window_def)
qed

text \<open>
  The theorem on the four messages of the small world with the window from 8 to 15 March
  2024: the messages of 7 and 16 March go, those of 8 and 15 March stay.
\<close>

theorem filter_window_witness:
  "filter_messages demo (Some ''2024-03-08'') (Some ''2024-03-15'') demo_messages =
     Inr [shape_message (msg_at ''2024-03-08 09:00:00'' ''b''),
          shape_message \<lparr> msg_text = None, msg_date = ''2024-03-15 08:00:00'',
            msg_is_from_me = True, msg_attachments = Some [demo_attachment] \<rparr>]"
proof -
  have dates: "\<forall>m \<in> set demo_messages. strptime_ymd demo (take 10 (msg_date m)) \<noteq> None"
    by (simp add: demo_messages_def msg_at_def demo_days)
  have lo: "window_bound demo (Some ''2024-03-08'') (Some 738953)"
    by (simp add: window_bound_def truthy_def demo_bounds)
  have hi: "window_bound demo (Some ''2024-03-15'') (Some 738960)"
    by (simp add: window_bound_def truthy_def demo_bounds)
  show ?thesis
    using filter_keeps_days_in_window [OF dates lo hi]
    by (simp add: demo_messages_def msg_at_def demo_days in_window_def)
qed

section \<open>Shaping\<close>

text \<open>
  Claim C4. Whenever \<^verbatim>\<open>get_chat_transcript\<close> returns, its \<^verbatim>\<open>messages\<close> are the
  records of the retained messages of the fetched list, one record for each, in the
  same order, and \<^verbatim>\<open>total_count\<close> is the length of that list. Shaping never fails:
  when the date checks go through for every message, the loop returns a record for every
  retained message. In a record, \<^verbatim>\<open>text\<close> is the message's text, or the empty string
  when there is none; \<^verbatim>\<open>date\<close> is the provider's timestamp string as it is;
  \<^verbatim>\<open>has_attachments\<close> holds exactly when the attachment list is not empty; the
  attachments are mapped one by one; and \<^verbatim>\<open>is_missing\<close> is false when the provider
  does not report it.
\<close>

theorem shaping_is_one_to_one:
  assumes ok: "outcome (get_chat_transcript E cm0 contact start_date end_date) = Inr t"
  shows "(\<exists>n. fetched (get_chat_transcript E cm0 contact start_date end_date) = [n]
            \<and> messages t =
                map shape_message
                  (filter (retained E (fst (default_dates E start_date end_date))
                                      (snd (default_dates E start_date end_date)))
                     (message_list E n)))
       \<and> total_count t = length (messages t)
       \<and> ((\<forall>m \<in> set ms. \<exists>d b. strptime_ymd E (take 10 (msg_date m)) = Some d
               \<and> skipped E sd ed (d, 0) = Inr b)
            \<longrightarrow> filter_messages E sd ed ms =
                  Inr (map shape_message (filter (retained E sd ed) ms)))
       \<and> rec_text (shape_message m) = (case msg_text m of None \<Rightarrow> [] | Some x \<Rightarrow> x)
       \<and> rec_date (shape_message m) = msg_date m
       \<and> rec_has_attachments (shape_message m) = (\<exists>a as. msg_attachments m = Some (a # as))
       \<and> rec_attachments (shape_message m) =
           map shape_attachment (case msg_attachments m of None \<Rightarrow> [] | Some as \<Rightarrow> as)
       \<and> is_missing (shape_attachment a) = (att_missing a = Some True)"
proof -
  let ?run = "get_chat_transcript E cm0 contact start_date end_date"
  let ?sd = "fst (default_dates E start_date end_date)"
  let ?ed = "snd (default_dates E start_date end_date)"
  obtain nums where resolved: "snd (resolve_contact E cm0 contact) = Inr nums"
    using ok by (cases "snd (resolve_contact E cm0 contact)") (simp_all add: run_error)
  obtain n where normalized: "normalize_first E nums = Inr n"
    using ok resolved by (cases "normalize_first E nums") (simp_all add: run_norm_error)
  have store: "path_exists E (DB_PATH E)"
    using ok run_no_store [OF resolved normalized] by (cases "path_exists E (DB_PATH E)") simp_all
  note run = run_fetch [OF resolved normalized store, of start_date end_date]
  from ok run obtain out where out: "filter_messages E ?sd ?ed (message_list E n) = Inr out"
    and t: "t = \<lparr> messages = out, total_count = length out \<rparr>"
    by (cases "filter_messages E ?sd ?ed (message_list E n)") auto
  have one: "\<exists>n. fetched ?run = [n] \<and> messages t =
      map shape_message (filter (retained E ?sd ?ed) (message_list E n))"
    using run t filter_messages_Inr [OF out] by simp
  have two: "total_count t = length (messages t)"
    using t by simp
  have three: "(\<forall>m \<in> set ms. \<exists>d b. strptime_ymd E (take 10 (msg_date m)) = Some d
               \<and> skipped E sd ed (d, 0) = Inr b)
            \<longrightarrow> filter_messages E sd ed ms =
                  Inr (map shape_message (filter (retained E sd ed) ms))"
    using filter_messages_total by blast
  have four: "rec_has_attachments (shape_message m) = (\<exists>a as. msg_attachments m = Some (a # as))"
    by (simp add: shape_message_def neq_Nil_conv split: option.splits)
  have five: "is_missing (shape_attachment a) = (att_missing a = Some True)"
    by (simp add: shape_attachment_def split: option.splits)
  have six: "rec_attachments (shape_message m) =
           map shape_attachment (case msg_attachments m of None \<Rightarrow> [] | Some as \<Rightarrow> as)"
    by (simp add: shape_message_def split: option.splits)
  from one two three four five six show ?thesis
    by (simp add: shape_message_def)
qed

text \<open>The theorem on the run for Jane Doe in the small world.\<close>

theorem shaping_witness:
  "outcome (get_chat_transcript demo demo_contacts ''Jane Doe'' None None) = Inr demo_transcript
   \<and> total_count demo_transcript = length (messages demo_transcript)
   \<and> messages demo_transcript =
       map shape_message
         (filter (retained demo (Some ''2024-03-08'') (Some ''2024-03-15'')) demo_messages)"
proof -
  have ok: "outcome (get_chat_transcript demo demo_contacts ''Jane Doe'' None None) = Inr demo_transcript"
    by (simp add: demo_run_jane_doe)
  show ?thesis
    using shaping_is_one_to_one [OF ok] ok
    by (simp add: demo_run_jane_doe demo_default_dates demo_messages_of)
qed

section \<open>Contact not found\<close>

text \<open>
  Claim C5. A contact string that is no key of the directory, is contained in no
  display name (case-insensitively), and either does not parse as a phone number or
  parses to a number that is not valid, makes \<^verbatim>\<open>get_chat_transcript\<close> raise the
  contact-not-found \<^verbatim>\<open>ValueError\<close>. Its message contains the input string as it was
  given, and no identifier is passed to the message store.
\<close>

theorem unresolvable_contact_raises_before_fetch:
  assumes no_exact: "map_of (ensure_loaded (contacts_json E) cm0) contact = None"
    and no_sub: "\<forall>(n, i) \<in> set (ensure_loaded (contacts_json E) cm0).
                   \<not> sublist (lower contact) (lower n)"
    and bad: "(\<exists>e. phone_parse E contact = Inl e) \<or>
              (\<exists>p. phone_parse E contact = Inr p \<and> \<not> is_valid_number E p)"
  shows "outcome (get_chat_transcript E cm0 contact sd ed) =
           Inl (ValueError (case phone_parse E contact of
                              Inl e \<Rightarrow> not_found contact
                            | Inr p \<Rightarrow> not_found_invalid contact))
       \<and> sublist contact (not_found contact)
       \<and> sublist contact (not_found_invalid contact)
       \<and> fetched (get_chat_transcript E cm0 contact sd ed) = []"
proof -
  have "snd (lookup_contact_numbers (contacts_json E) cm0 contact) = None"
    using no_exact no_sub by (simp add: lookup_snd partial_match_None)
  then have r: "snd (resolve_contact E cm0 contact) = parse_as_phone E contact"
    by (simp add: resolve_snd)
  have p: "parse_as_phone E contact =
      Inl (ValueError (case phone_parse E contact of
                         Inl e \<Rightarrow> not_found contact
                       | Inr p \<Rightarrow> not_found_invalid contact))"
    using bad by (auto simp: parse_as_phone_def)
  show ?thesis
    using r p by (simp add: run_error sublist_not_found sublist_not_found_invalid)
qed

text \<open>
  The theorem at \<^verbatim>\<open>"nobody"\<close>, which does not parse, and at \<^verbatim>\<open>"911"\<close>, which
  parses and is not valid.
\<close>

theorem unresolvable_contact_witness:
  "outcome (get_chat_transcript demo demo_contacts ''nobody'' None None) =
     Inl (ValueError (not_found ''nobody''))
   \<and> fetched (get_chat_transcript demo demo_contacts ''nobody'' None None) = []
   \<and> outcome (get_chat_transcript demo demo_contacts ''911'' None None) =
     Inl (ValueError (not_found_invalid ''911''))
   \<and> fetched (get_chat_transcript demo demo_contacts ''911'' None None) = []"
proof -
  have a1: "map_of (ensure_loaded (contacts_json demo) demo_contacts) ''nobody'' = None"
    by (simp add: world_simps)
  have a2: "\<forall>(n, i) \<in> set (ensure_loaded (contacts_json demo) demo_contacts).
              \<not> sublist (lower ''nobody'') (lower n)"
    by (simp add: world_simps)
  have a3: "phone_parse demo ''nobody'' = Inl ''The string supplied did not seem to be a phone number.''"
    by (simp add: demo_def nanp_parse_def digit_of_def)
  then have a4: "(\<exists>e. phone_parse demo ''nobody'' = Inl e) \<or>
              (\<exists>p. phone_parse demo ''nobody'' = Inr p \<and> \<not> is_valid_number demo p)"
    by simp
  have b1: "map_of (ensure_loaded (contacts_json demo) demo_contacts) ''911'' = None"
    by (simp add: world_simps)
  have b2: "\<forall>(n, i) \<in> set (ensure_loaded (contacts_json demo) demo_contacts).
              \<not> sublist (lower ''911'') (lower n)"
    by (simp add: world_simps)
  have b3: "phone_parse demo ''911'' = Inr ''911''"
    by (simp add: demo_def nanp_parse_def digit_of_def)
  have "\<not> is_valid_number demo ''911''"
    by (simp add: demo_def nanp_valid_def)
  with b3 have b4: "(\<exists>e. phone_parse demo ''911'' = Inl e) \<or>
              (\<exists>p. phone_parse demo ''911'' = Inr p \<and> \<not> is_valid_number demo p)"
    by simp
  show ?thesis
    using unresolvable_contact_raises_before_fetch [OF a1 a2 a4, of None None]
      unresolvable_contact_raises_before_fetch [OF b1 b2 b4, of None None]
    by (simp add: a3 b3)
qed

section \<open>The identifier passed to the message store\<close>

text \<open>
  Claim C6. When the lookup of a contact returns a directory entry's phone list and the
  list is not empty, the identifier passed to \<^verbatim>\<open>db.Messages\<close> is the E.164 form of
  the first phone of that list: nothing is passed when that phone does not parse, is not
  valid, or the store is missing. And in every run, for any contact, directory and
  dates, whatever is passed to \<^verbatim>\<open>db.Messages\<close> is the E.164 form of a number that
  parsed and is valid.
\<close>

theorem fetch_identifier_is_e164_of_first_phone:
  assumes found: "snd (lookup_contact_numbers (contacts_json E) cm0 contact) = Some (p # ps)"
  shows "fetched (get_chat_transcript E cm0 contact sd ed) =
           (case phone_parse E p of
              Inl e \<Rightarrow> []
            | Inr q \<Rightarrow>
                if is_valid_number E q \<and> path_exists E (DB_PATH E)
                then [format_e164 E q] else [])
       \<and> (\<forall>n \<in> set (fetched (get_chat_transcript E cm1 c sd1 ed1)).
             \<exists>s q. phone_parse E s = Inr q \<and> is_valid_number E q \<and> n = format_e164 E q)"
proof -
  have r: "snd (resolve_contact E cm0 contact) = Inr (p # ps)"
    using found by (simp add: resolve_snd)
  have a: "fetched (get_chat_transcript E cm0 contact sd ed) =
           (case phone_parse E p of
              Inl e \<Rightarrow> []
            | Inr q \<Rightarrow>
                if is_valid_number E q \<and> path_exists E (DB_PATH E)
                then [format_e164 E q] else [])"
    by (simp add: fetched_cases r normalize_first_Cons split: sum.splits)
  have b: "\<forall>n \<in> set (fetched (get_chat_transcript E cm1 c sd1 ed1)).
             \<exists>s q. phone_parse E s = Inr q \<and> is_valid_number E q \<and> n = format_e164 E q"
  proof
    fix n assume n: "n \<in> set (fetched (get_chat_transcript E cm1 c sd1 ed1))"
    then obtain nums where "normalize_first E nums = Inr n"
      by (auto simp: fetched_cases split: sum.splits if_splits)
    then show "\<exists>s q. phone_parse E s = Inr q \<and> is_valid_number E q \<and> n = format_e164 E q"
      by (rule normalize_first_canonical)
  qed
  from a b show ?thesis by blast
qed

text \<open>The theorem at the exact name \<^verbatim>\<open>"Jane Doe"\<close>, whose first phone is \<^verbatim>\<open>(415) 555-2671\<close>.\<close>

theorem fetch_identifier_witness:
  "fetched (get_chat_transcript demo demo_contacts ''Jane Doe'' None None) = [''+14155552671'']"
proof -
  have found: "snd (lookup_contact_numbers (contacts_json demo) demo_contacts ''Jane Doe'') =
      Some (''(415) 555-2671'' # [''212-555-0187''])"
    by (simp add: demo_lookup_jane_doe)
  show ?thesis
    using fetch_identifier_is_e164_of_first_phone [OF found, of None None demo_contacts "''Jane Doe''" None None]
    by (simp add: demo_parse_first_phone demo_valid_first_phone demo_format_first_phone demo_store)
qed

section \<open>A directory file that cannot be read\<close>

text \<open>
  Claim C7. When the directory file exists and \<^verbatim>\<open>open\<close> or \<^verbatim>\<open>json.load\<close> raises,
  \<^verbatim>\<open>load_contacts_map\<close> returns normally and the in-memory map stays empty. Every
  lookup then finds nothing, resolution is the parse of the input as a phone number,
  and the map is still empty after the call, so the next call is in the same position.
\<close>

theorem unreadable_directory_degrades_to_phone_only:
  assumes bad: "contacts_json E = FileUnreadable"
  shows "load_contacts_map (contacts_json E) [] = []
       \<and> lookup_contact_numbers (contacts_json E) [] contact = ([], None)
       \<and> resolve_contact E [] contact = ([], parse_as_phone E contact)
       \<and> contacts_after (get_chat_transcript E [] contact sd ed) = []"
proof -
  have l: "load_contacts_map (contacts_json E) [] = []"
    using bad by (simp add: load_contacts_map_def)
  then have e: "ensure_loaded (contacts_json E) [] = []"
    by (simp add: ensure_loaded_def)
  then have k: "lookup_contact_numbers (contacts_json E) [] contact = ([], None)"
    by (simp add: lookup_contact_numbers_def)
  then have r: "resolve_contact E [] contact = ([], parse_as_phone E contact)"
    by (simp add: resolve_contact_def)
  from l k r e show ?thesis by (simp add: run_contacts_after)
qed

text \<open>
  The theorem with the small world's file made unreadable: a name is not found, a phone
  number resolves.
\<close>

theorem unreadable_directory_witness:
  "lookup_contact_numbers FileUnreadable [] ''Jane Doe'' = ([], None)
   \<and> resolve_contact (demo\<lparr>contacts_json := FileUnreadable\<rparr>) [] ''Jane Doe'' =
       ([], Inl (ValueError (not_found ''Jane Doe'')))
   \<and> resolve_contact (demo\<lparr>contacts_json := FileUnreadable\<rparr>) [] ''+1 415 555 2671'' =
       ([], Inr [''+14155552671''])"
proof -
  let ?E = "demo\<lparr>contacts_json := FileUnreadable\<rparr>"
  have bad: "contacts_json ?E = FileUnreadable" by simp
  have p1: "parse_as_phone ?E ''Jane Doe'' = Inl (ValueError (not_found ''Jane Doe''))"
    by (simp add: parse_as_phone_def demo_def nanp_parse_def digit_of_def)
  have p2: "parse_as_phone ?E ''+1 415 555 2671'' = Inr [''+14155552671'']"
    by (simp add: parse_as_phone_def demo_def nanp_parse_def nanp_valid_def nanp_e164_def digit_of_def)
  show ?thesis
    using unreadable_directory_degrades_to_phone_only [OF bad, of "''Jane Doe''" None None]
      unreadable_directory_degrades_to_phone_only [OF bad, of "''+1 415 555 2671''" None None]
    by (simp add: p1 p2)
qed

section \<open>A missing message store\<close>

text \<open>
  Claim C8. When the contact resolves and its first number normalises, and there is no
  file at the store's path, \<^verbatim>\<open>get_chat_transcript\<close> raises \<^verbatim>\<open>FileNotFoundError\<close>
  with a message that ends in that path, and passes nothing to \<^verbatim>\<open>db.Messages\<close>. The
  path is the value of \<^verbatim>\<open>SQLITE_DB_PATH\<close> when the variable is set, and
  \<^verbatim>\<open>Library/Messages/chat.db\<close> under the home directory otherwise.
\<close>

theorem missing_store_raises_before_fetch:
  assumes resolved: "snd (resolve_contact E cm0 contact) = Inr nums"
    and normalized: "normalize_first E nums = Inr n"
    and missing: "\<not> path_exists E (DB_PATH E)"
  shows "outcome (get_chat_transcript E cm0 contact sd ed) =
           Inl (FileNotFoundError (''Messages database not found at: '' @ DB_PATH E))
       \<and> fetched (get_chat_transcript E cm0 contact sd ed) = []
       \<and> DB_PATH E =
           (case environ_get E ''SQLITE_DB_PATH'' of
              Some p \<Rightarrow> p
            | None \<Rightarrow> home E @ ''/Library/Messages/chat.db'')"
  by (simp add: run_no_store [OF resolved normalized missing] DB_PATH_def DEFAULT_DB_PATH_def
      split: option.splits)

text \<open>The theorem with \<^verbatim>\<open>SQLITE_DB_PATH=/tmp/absent.db\<close>.\<close>

theorem missing_store_witness:
  "outcome (get_chat_transcript elsewhere demo_contacts ''Jane Doe'' None None) =
     Inl (FileNotFoundError ''Messages database not found at: /tmp/absent.db'')
   \<and> fetched (get_chat_transcript elsewhere demo_contacts ''Jane Doe'' None None) = []"
proof -
  have "contacts_json elsewhere = contacts_json demo"
    by (simp add: elsewhere_def)
  then have "lookup_contact_numbers (contacts_json elsewhere) demo_contacts ''Jane Doe'' =
     (demo_contacts, Some [''(415) 555-2671'', ''212-555-0187''])"
    by (simp add: demo_lookup_jane_doe)
  then have resolved: "snd (resolve_contact elsewhere demo_contacts ''Jane Doe'') =
      Inr [''(415) 555-2671'', ''212-555-0187'']"
    by (simp add: resolve_snd)
  have normalized: "normalize_first elsewhere [''(415) 555-2671'', ''212-555-0187''] = Inr ''+14155552671''"
    by (simp add: normalize_first_Cons elsewhere_def demo_def nanp_parse_def nanp_valid_def
        nanp_e164_def digit_of_def)
  have path: "DB_PATH elsewhere = ''/tmp/absent.db''"
    by (simp add: DB_PATH_def elsewhere_def)
  have missing: "\<not> path_exists elsewhere (DB_PATH elsewhere)"
    by (simp add: path) (simp add: elsewhere_def demo_def)
  show ?thesis
    using missing_store_raises_before_fetch [OF resolved normalized missing, of None None]
    by (simp add: path)
qed

section \<open>The empty contact string\<close>

text \<open>
  Claim C10, as the code has it. With a directory that is not empty and has no entry
  keyed by the empty string, the empty contact string is contained in the first display
  name, so the scan stops at the first entry in iteration order and
  \<^verbatim>\<open>lookup_contact_numbers\<close> returns that entry's phone list. Resolution goes on with
  that list when it is not empty; when it is empty, the empty string is parsed as a
  phone number, which is where a contact-not-found error can still come from.
\<close>

theorem empty_contact_takes_first_entry:
  assumes dir: "ensure_loaded (contacts_json E) cm0 = (name, info) # rest"
    and no_key: "map_of ((name, info) # rest) [] = None"
  shows "snd (lookup_contact_numbers (contacts_json E) cm0 []) = Some (dict_get info ''phones'' [])
       \<and> snd (resolve_contact E cm0 []) =
           (case dict_get info ''phones'' [] of
              [] \<Rightarrow> parse_as_phone E []
            | p # ps \<Rightarrow> Inr (p # ps))"
proof -
  have lk: "snd (lookup_contact_numbers (contacts_json E) cm0 []) = Some (dict_get info ''phones'' [])"
    unfolding lookup_snd dir using no_key by (simp add: lower_def del: map_of.simps)
  show ?thesis
    using lk by (simp add: resolve_snd split: list.splits)
qed

text \<open>The theorem on a directory whose first entry, Jane Doe, has two phones.\<close>

theorem empty_contact_witness:
  "snd (lookup_contact_numbers (contacts_json demo) (tl demo_contacts) []) =
     Some [''(415) 555-2671'', ''212-555-0187'']
   \<and> snd (resolve_contact demo (tl demo_contacts) []) = Inr [''(415) 555-2671'', ''212-555-0187'']"
proof -
  let ?info = "[(''phones'', [''(415) 555-2671'', ''212-555-0187'']), (''emails'', [])]"
  let ?rest = "[(''Bob Stone'', [(''phones'', [''12345'']), (''emails'', [])])]"
  have dir: "ensure_loaded (contacts_json demo) (tl demo_contacts) = (''Jane Doe'', ?info) # ?rest"
    by (simp add: world_simps)
  have no_key: "map_of ((''Jane Doe'', ?info) # ?rest) [] = None"
    by simp
  show ?thesis
    using empty_contact_takes_first_entry [OF dir no_key] by (simp add: dict_get_def)
qed

text \<open>
  Claim C10 as it is written fails on a loaded, non-empty directory whose first entry
  has no phone: the call with the empty contact string ends with the contact-not-found
  error.
\<close>

theorem empty_contact_counterexample:
  "ensure_loaded (contacts_json demo) demo_contacts = demo_contacts
   \<and> demo_contacts \<noteq> []
   \<and> outcome (get_chat_transcript demo demo_contacts [] None None) =
       Inl (ValueError (not_found []))"
proof -
  have "snd (resolve_contact demo demo_contacts []) = Inl (ValueError (not_found []))"
    by (simp add: resolve_snd demo_lookup_empty demo_parse_empty)
  then have "outcome (get_chat_transcript demo demo_contacts [] None None) =
       Inl (ValueError (not_found []))"
    by (simp add: run_error)
  moreover have "demo_contacts \<noteq> []" by (simp add: demo_contacts_def)
  ultimately show ?thesis by (simp add: demo_loaded)
qed

end
